theory Spec2Isabelle
  imports Main
begin

section \<open>stm32-power.py: power control of a Kasa smart plug\<close>

text \<open>
  The script \<^verbatim>\<open>tools/stm32-power.py\<close> parses a command and a host, connects to the
  plug through the \<^verbatim>\<open>kasa\<close> library, refreshes the device object and runs one of four
  handlers. Everything it does beyond computing is an effect: calls into the library,
  a timed sleep, lines printed to standard output and standard error, the exit status.
  The embedding threads a process state through every step and records each effect in it.
\<close>

subsection \<open>Exceptions\<close>

text \<open>
  The handlers raise nothing themselves; what they propagate is what the library raises
  (\<^verbatim>\<open>KasaException\<close>, \<^verbatim>\<open>OSError\<close>, \<^verbatim>\<open>TimeoutError\<close>: all derived from
  \<^verbatim>\<open>Exception\<close>). An exception is represented by the text \<^verbatim>\<open>str(e)\<close> yields.
\<close>

datatype exn = Exception string

fun str_exn :: "exn \<Rightarrow> string" where
  "str_exn (Exception m) = m"

subsection \<open>The device library and the outside world\<close>

text \<open>
  A \<^verbatim>\<open>Device\<close> object is mutable and is referred to by its identity, a \<open>handle\<close>.
  Its cached fields, the plug and the network live in a world \<open>'w\<close> about which nothing
  is assumed. Each awaited library call takes the world and returns either the
  exception it raised or its result, together with the world it leaves behind;
  \<open>alias\<close> and \<open>is_on\<close> are the two properties the script reads, \<open>reported_host\<close> is
  the address stored in the device object (\<^verbatim>\<open>Device.host\<close>), which the script never
  reads. \<open>sleep\<close> is what the passing of \<^verbatim>\<open>asyncio.sleep(n)\<close> seconds does to the world,
  and \<open>usage\<close> is the text \<^verbatim>\<open>argparse\<close> writes when it rejects the command line.
\<close>

type_synonym handle = nat

record 'w env =
  connect :: "string \<Rightarrow> 'w \<Rightarrow> (exn + handle) \<times> 'w"
  update :: "handle \<Rightarrow> 'w \<Rightarrow> (exn + unit) \<times> 'w"
  turn_on :: "handle \<Rightarrow> 'w \<Rightarrow> (exn + unit) \<times> 'w"
  turn_off :: "handle \<Rightarrow> 'w \<Rightarrow> (exn + unit) \<times> 'w"
  "alias" :: "handle \<Rightarrow> 'w \<Rightarrow> string"
  is_on :: "handle \<Rightarrow> 'w \<Rightarrow> bool"
  reported_host :: "handle \<Rightarrow> 'w \<Rightarrow> string"
  sleep :: "int \<Rightarrow> 'w \<Rightarrow> 'w"
  usage :: "string \<Rightarrow> string list"

subsection \<open>Process state\<close>

text \<open>
  An event is one interaction with the outside, with its outcome: \<open>Inl e\<close> when the call
  raised \<open>e\<close>, \<open>Inr r\<close> when it returned \<open>r\<close>. \<open>stdout\<close> and \<open>stderr\<close> hold the texts
  of the \<^verbatim>\<open>print\<close> calls in order; each is written as one line.
\<close>

datatype event =
    Connect string "exn + handle"
  | Update handle "exn + unit"
  | TurnOn handle "exn + unit"
  | TurnOff handle "exn + unit"
  | Sleep int
  | GetIsOn handle bool
  | GetAlias handle string

record 'w state =
  world :: 'w
  trace :: "event list"
  stdout :: "string list"
  stderr :: "string list"

definition init :: "'w \<Rightarrow> 'w state" where
  "init w = \<lparr>world = w, trace = [], stdout = [], stderr = []\<rparr>"

type_synonym ('a, 'w) io = "'w state \<Rightarrow> (exn + 'a) \<times> 'w state"

definition return_io :: "'a \<Rightarrow> ('a, 'w) io" where
  "return_io a s = (Inr a, s)"

definition bind_io :: "('a, 'w) io \<Rightarrow> ('a \<Rightarrow> ('b, 'w) io) \<Rightarrow> ('b, 'w) io" where
  "bind_io m f s = (case m s of (Inl e, s') \<Rightarrow> (Inl e, s') | (Inr a, s') \<Rightarrow> f a s')"

definition print :: "string \<Rightarrow> (unit, 'w) io" where
  "print t s = (Inr (), s\<lparr>stdout := stdout s @ [t]\<rparr>)"

definition print_stderr :: "string \<Rightarrow> 'w state \<Rightarrow> 'w state" where
  "print_stderr t s = s\<lparr>stderr := stderr s @ [t]\<rparr>"

definition Device_connect :: "'w env \<Rightarrow> string \<Rightarrow> (handle, 'w) io" where
  "Device_connect E host s =
     (case connect E host (world s) of
        (r, w') \<Rightarrow> (r, s\<lparr>world := w', trace := trace s @ [Connect host r]\<rparr>))"

definition dev_update :: "'w env \<Rightarrow> handle \<Rightarrow> (unit, 'w) io" where
  "dev_update E dev s =
     (case update E dev (world s) of
        (r, w') \<Rightarrow> (r, s\<lparr>world := w', trace := trace s @ [Update dev r]\<rparr>))"

definition dev_turn_on :: "'w env \<Rightarrow> handle \<Rightarrow> (unit, 'w) io" where
  "dev_turn_on E dev s =
     (case turn_on E dev (world s) of
        (r, w') \<Rightarrow> (r, s\<lparr>world := w', trace := trace s @ [TurnOn dev r]\<rparr>))"

definition dev_turn_off :: "'w env \<Rightarrow> handle \<Rightarrow> (unit, 'w) io" where
  "dev_turn_off E dev s =
     (case turn_off E dev (world s) of
        (r, w') \<Rightarrow> (r, s\<lparr>world := w', trace := trace s @ [TurnOff dev r]\<rparr>))"

definition dev_is_on :: "'w env \<Rightarrow> handle \<Rightarrow> (bool, 'w) io" where
  "dev_is_on E dev s =
     (let b = is_on E dev (world s) in (Inr b, s\<lparr>trace := trace s @ [GetIsOn dev b]\<rparr>))"

definition dev_alias :: "'w env \<Rightarrow> handle \<Rightarrow> (string, 'w) io" where
  "dev_alias E dev s =
     (let a = alias E dev (world s) in (Inr a, s\<lparr>trace := trace s @ [GetAlias dev a]\<rparr>))"

definition asyncio_sleep :: "'w env \<Rightarrow> int \<Rightarrow> (unit, 'w) io" where
  "asyncio_sleep E n s =
     (Inr (), s\<lparr>world := sleep E n (world s), trace := trace s @ [Sleep n]\<rparr>)"

subsection \<open>Formatting an integer\<close>

definition digits :: string where
  "digits = ''0123456789''"

function str_nat :: "nat \<Rightarrow> string" where
  "str_nat n = (if n < 10 then [digits ! n] else str_nat (n div 10) @ [digits ! (n mod 10)])"
  by pat_completeness auto
termination
  by (relation "measure (\<lambda>n. n)") auto

definition str_int :: "int \<Rightarrow> string" where
  "str_int i = (if i < 0 then ''-'' @ str_nat (nat (- i)) else str_nat (nat i))"

subsection \<open>Constants and handlers\<close>

definition DEFAULT_HOST :: string where
  "DEFAULT_HOST = ''192.168.4.96''"

definition CYCLE_DELAY :: int where
  "CYCLE_DELAY = 3"

definition get_device :: "'w env \<Rightarrow> string \<Rightarrow> (handle, 'w) io" where
  "get_device E host =
     bind_io (Device_connect E host) (\<lambda>dev.
     bind_io (dev_update E dev) (\<lambda>_.
     return_io dev))"

definition cmd_status :: "'w env \<Rightarrow> string \<Rightarrow> (unit, 'w) io" where
  "cmd_status E host =
     bind_io (get_device E host) (\<lambda>dev.
     bind_io (dev_is_on E dev) (\<lambda>on.
     let state = (if on then ''ON'' else ''OFF'') in
     bind_io (dev_alias E dev) (\<lambda>a.
     bind_io (print (''Device: '' @ a)) (\<lambda>_.
     bind_io (print (''Host:   '' @ host)) (\<lambda>_.
     print (''State:  '' @ state))))))"

definition cmd_on :: "'w env \<Rightarrow> string \<Rightarrow> (unit, 'w) io" where
  "cmd_on E host =
     bind_io (get_device E host) (\<lambda>dev.
     bind_io (dev_is_on E dev) (\<lambda>on.
     if on then print ''Already ON''
     else bind_io (dev_turn_on E dev) (\<lambda>_. print ''Turned ON'')))"

definition cmd_off :: "'w env \<Rightarrow> string \<Rightarrow> (unit, 'w) io" where
  "cmd_off E host =
     bind_io (get_device E host) (\<lambda>dev.
     bind_io (dev_is_on E dev) (\<lambda>on.
     if \<not> on then print ''Already OFF''
     else bind_io (dev_turn_off E dev) (\<lambda>_. print ''Turned OFF'')))"

definition cmd_cycle :: "'w env \<Rightarrow> string \<Rightarrow> (unit, 'w) io" where
  "cmd_cycle E host =
     bind_io (get_device E host) (\<lambda>dev.
     bind_io (print ''Power cycling...'') (\<lambda>_.
     bind_io (dev_turn_off E dev) (\<lambda>_.
     bind_io (print (''OFF - waiting '' @ str_int CYCLE_DELAY @ ''s...'')) (\<lambda>_.
     bind_io (asyncio_sleep E CYCLE_DELAY) (\<lambda>_.
     bind_io (dev_turn_on E dev) (\<lambda>_.
     print ''ON''))))))"

subsection \<open>Argument parsing and dispatch\<close>

text \<open>
  Splitting \<^verbatim>\<open>sys.argv\<close> into the positional command and the value of \<^verbatim>\<open>--host\<close> is
  the work of \<^verbatim>\<open>argparse\<close>; \<open>argv\<close> is what it found on the command line. The script
  contributes the two defaults and the list of choices. A command outside the choices
  makes \<^verbatim>\<open>parse_args\<close> write its usage text and leave with status 2.
\<close>

record argv =
  pos_command :: "string option"
  opt_host :: "string option"

record args =
  command :: string
  host :: string

definition choices :: "string list" where
  "choices = [''on'', ''off'', ''cycle'', ''status'']"

definition parse_args :: "argv \<Rightarrow> string + args" where
  "parse_args av =
     (let c = (case pos_command av of None \<Rightarrow> ''status'' | Some c \<Rightarrow> c);
          h = (case opt_host av of None \<Rightarrow> DEFAULT_HOST | Some h \<Rightarrow> h)
      in if c \<in> set choices then Inr \<lparr>command = c, host = h\<rparr> else Inl c)"

definition commands :: "'w env \<Rightarrow> (string \<times> (string \<Rightarrow> (unit, 'w) io)) list" where
  "commands E =
     [(''status'', cmd_status E),
      (''on'', cmd_on E),
      (''off'', cmd_off E),
      (''cycle'', cmd_cycle E)]"

text \<open>
  \<^verbatim>\<open>commands[args.command]\<close> is evaluated inside the \<^verbatim>\<open>try\<close>; a missing key would raise
  \<^verbatim>\<open>KeyError\<close>, whose text is the quoted key.
\<close>

definition lookup_command :: "'w env \<Rightarrow> string \<Rightarrow> string \<Rightarrow> (unit, 'w) io" where
  "lookup_command E c h =
     (case map_of (commands E) c of
        None \<Rightarrow> (\<lambda>s. (Inl (Exception ([CHR 0x27] @ c @ [CHR 0x27])), s))
      | Some f \<Rightarrow> f h)"

datatype exit = Returned | SysExit nat

fun exit_code :: "exit \<Rightarrow> nat" where
  "exit_code Returned = 0"
| "exit_code (SysExit n) = n"

definition main :: "'w env \<Rightarrow> argv \<Rightarrow> 'w state \<Rightarrow> exit \<times> 'w state" where
  "main E av s =
     (case parse_args av of
        Inl bad \<Rightarrow> (SysExit 2, s\<lparr>stderr := stderr s @ usage E bad\<rparr>)
      | Inr a \<Rightarrow>
          (case lookup_command E (command a) (host a) s of
             (Inl e, s') \<Rightarrow> (SysExit 1, print_stderr (''Error: '' @ str_exn e) s')
           | (Inr _, s') \<Rightarrow> (Returned, s')))"

subsection \<open>Reading a trace\<close>



fun is_connect :: "event \<Rightarrow> bool" where
  "is_connect (Connect _ _) = True"
| "is_connect _ = False"

fun is_turn_on :: "event \<Rightarrow> bool" where
  "is_turn_on (TurnOn _ _) = True"
| "is_turn_on _ = False"

fun is_turn_off :: "event \<Rightarrow> bool" where
  "is_turn_off (TurnOff _ _) = True"
| "is_turn_off _ = False"

fun is_sleep :: "event \<Rightarrow> bool" where
  "is_sleep (Sleep _) = True"
| "is_sleep _ = False"

definition calls :: "(event \<Rightarrow> bool) \<Rightarrow> event list \<Rightarrow> nat" where
  "calls p tr = length (filter p tr)"

text \<open>
  \<open>uses d ev\<close>: the event is a property read or a switching call on the device object
  \<open>d\<close>, or a sleep; it neither connects nor refreshes.
\<close>

fun uses :: "handle \<Rightarrow> event \<Rightarrow> bool" where
  "uses d (GetIsOn x _) = (x = d)"
| "uses d (GetAlias x _) = (x = d)"
| "uses d (TurnOn x _) = (x = d)"
| "uses d (TurnOff x _) = (x = d)"
| "uses d (Sleep _) = True"
| "uses d (Connect _ _) = False"
| "uses d (Update _ _) = False"

subsection \<open>A substitute for the library\<close>

text \<open>
  A plug with a relay, as a stand-in for the library where a statement is evaluated on
  a concrete run. The device object caches the relay state at \<^verbatim>\<open>update\<close>; an
  unreachable plug makes \<^verbatim>\<open>connect\<close> raise, a plug that refuses commands makes
  \<^verbatim>\<open>turn_on\<close> and \<^verbatim>\<open>turn_off\<close> raise.
\<close>

record plug =
  plug_alias :: string
  plug_address :: string
  relay :: bool
  cached :: bool
  reachable :: bool
  refuses :: bool

definition mock :: "plug env" where
  "mock =
     \<lparr>connect = (\<lambda>host w.
        if reachable w then (Inr 0, w) else (Inl (Exception ''Unable to connect''), w)),
      update = (\<lambda>d w. (Inr (), w\<lparr>cached := relay w\<rparr>)),
      turn_on = (\<lambda>d w.
        if refuses w then (Inl (Exception ''Command rejected''), w)
        else (Inr (), w\<lparr>relay := True\<rparr>)),
      turn_off = (\<lambda>d w.
        if refuses w then (Inl (Exception ''Command rejected''), w)
        else (Inr (), w\<lparr>relay := False\<rparr>)),
      alias = (\<lambda>d w. plug_alias w),
      is_on = (\<lambda>d w. cached w),
      reported_host = (\<lambda>d w. plug_address w),
      sleep = (\<lambda>n w. w),
      usage = (\<lambda>c. [''usage: stm32-power.py [-h] [--host HOST] [{on,off,cycle,status}]''])\<rparr>"

definition bench :: "bool \<Rightarrow> plug" where
  "bench on =
     \<lparr>plug_alias = ''STM32 bench'', plug_address = ''192.168.4.96'', relay = on,
      cached = False, reachable = True, refuses = False\<rparr>"

subsection \<open>Properties of computations\<close>




text \<open>
  \<open>follows d m\<close>: whatever the state, \<open>m\<close> only appends to the trace, and only events
  that use the device object \<open>d\<close>.
\<close>

definition follows :: "handle \<Rightarrow> ('a, 'w) io \<Rightarrow> bool" where
  "follows d m = (\<forall>s. \<exists>ext. trace (snd (m s)) = trace s @ ext \<and> list_all (uses d) ext)"

text \<open>
  \<open>session E h w0 tr\<close>: the trace \<open>tr\<close> opens with the one connect to \<open>h\<close>; if that
  raised, nothing follows; otherwise the refresh of the returned object comes next, and
  if that raised, nothing follows; otherwise only uses of that object follow.
\<close>

definition session :: "'w env \<Rightarrow> string \<Rightarrow> 'w \<Rightarrow> event list \<Rightarrow> bool" where
  "session E h w0 tr =
     (case connect E h w0 of
        (Inl e, w1) \<Rightarrow> tr = [Connect h (Inl e)]
      | (Inr d, w1) \<Rightarrow>
          (case fst (update E d w1) of
             Inl e \<Rightarrow> tr = [Connect h (Inr d), Update d (Inl e)]
           | Inr u \<Rightarrow> (\<exists>rest. tr = Connect h (Inr d) # Update d (Inr ()) # rest \<and>
                          list_all (uses d) rest)))"

section \<open>Basic facts\<close>

lemma str_int_3: "str_int 3 = ''3''"
  by (simp add: str_int_def digits_def)

lemmas io_defs = bind_io_def return_io_def print_def print_stderr_def Device_connect_def
  dev_update_def dev_turn_on_def dev_turn_off_def dev_is_on_def dev_alias_def asyncio_sleep_def
  get_device_def

lemma lookup_cycle: "lookup_command E ''cycle'' h = cmd_cycle E h"
  by (simp add: lookup_command_def commands_def)

lemma lookup_on: "lookup_command E ''on'' h = cmd_on E h"
  by (simp add: lookup_command_def commands_def)

lemma lookup_off: "lookup_command E ''off'' h = cmd_off E h"
  by (simp add: lookup_command_def commands_def)

lemma lookup_status: "lookup_command E ''status'' h = cmd_status E h"
  by (simp add: lookup_command_def commands_def)

lemma parse_args_cases:
  assumes "parse_args av = Inr a"
  shows "command a = ''on'' \<or> command a = ''off'' \<or> command a = ''cycle'' \<or>
         command a = ''status''"
  using assms
  by (auto simp: parse_args_def choices_def Let_def split: if_splits)

text \<open>The parser lets through only keys of the dispatch table: no \<^verbatim>\<open>KeyError\<close> arises.\<close>

lemma commands_total:
  assumes "parse_args av = Inr a"
  shows "map_of (commands E) (command a) \<noteq> None"
  using parse_args_cases [OF assms] by (auto simp: commands_def)

lemmas mock_defs = parse_args_def choices_def DEFAULT_HOST_def mock_def bench_def

lemmas run_defs = main_def lookup_command_def commands_def cmd_status_def cmd_on_def
  cmd_off_def cmd_cycle_def io_defs init_def Let_def

lemma get_device_run:
  "get_device E h s =
     (case connect E h (world s) of
        (Inl e, w1) \<Rightarrow> (Inl e, s\<lparr>world := w1, trace := trace s @ [Connect h (Inl e)]\<rparr>)
      | (Inr d, w1) \<Rightarrow>
          (case update E d w1 of
             (Inl e, w2) \<Rightarrow>
               (Inl e, s\<lparr>world := w2, trace := trace s @ [Connect h (Inr d), Update d (Inl e)]\<rparr>)
           | (Inr u, w2) \<Rightarrow>
               (Inr d, s\<lparr>world := w2, trace := trace s @ [Connect h (Inr d), Update d (Inr ())]\<rparr>)))"
  by (simp add: get_device_def bind_io_def return_io_def Device_connect_def dev_update_def
      split: prod.split sum.split)

lemma trace_main:
  assumes "parse_args av = Inr a"
  shows "trace (snd (main E av s)) = trace (snd (lookup_command E (command a) (host a) s))"
  using assms by (simp add: main_def print_stderr_def split: prod.split sum.split)

lemma stdout_main:
  assumes "parse_args av = Inr a"
  shows "stdout (snd (main E av s)) = stdout (snd (lookup_command E (command a) (host a) s))"
  using assms by (simp add: main_def print_stderr_def split: prod.split sum.split)


section \<open>The cycle command runs off, wait, on\<close>

text \<open>
  C1. Whatever host the command line resolves to and whatever \<open>is_on\<close> reports after the
  refresh (\<open>obs\<close> is arbitrary), when connect, refresh, turn-off and turn-on all succeed
  the cycle command performs exactly connect(host), refresh, turn-off, a sleep of
  \<open>CYCLE_DELAY = 3\<close> seconds, turn-on, all on the handle that connect returned; it prints
  the three lines \<^verbatim>\<open>Power cycling...\<close>, \<^verbatim>\<open>OFF - waiting 3s...\<close>, \<^verbatim>\<open>ON\<close>, writes
  nothing to standard error and returns normally, which is exit status 0.
\<close>

theorem cycle_sequence:
  assumes "parse_args av = Inr \<lparr>command = ''cycle'', host = h\<rparr>"
    and "connect E h w0 = (Inr d, w1)"
    and "update E d w1 = (Inr (), w2)"
    and "turn_off E d w2 = (Inr (), w3)"
    and "turn_on E d (sleep E CYCLE_DELAY w3) = (Inr (), w4)"
  shows "main (E\<lparr>is_on := obs\<rparr>) av (init w0) =
           (Returned,
            \<lparr>world = w4,
             trace = [Connect h (Inr d), Update d (Inr ()), TurnOff d (Inr ()),
                      Sleep 3, TurnOn d (Inr ())],
             stdout = [''Power cycling...'', ''OFF - waiting 3s...'', ''ON''],
             stderr = []\<rparr>)
         \<and> exit_code Returned = 0 \<and> CYCLE_DELAY = 3"
  using assms unfolding CYCLE_DELAY_def
  by (simp add: main_def lookup_cycle cmd_cycle_def io_defs init_def str_int_3 CYCLE_DELAY_def)

theorem cycle_sequence_witness:
  "main mock \<lparr>pos_command = Some ''cycle'', opt_host = None\<rparr> (init (bench True)) =
     (Returned,
      \<lparr>world = (bench True)\<lparr>cached := True\<rparr>,
       trace = [Connect ''192.168.4.96'' (Inr 0), Update 0 (Inr ()), TurnOff 0 (Inr ()),
                Sleep 3, TurnOn 0 (Inr ())],
       stdout = [''Power cycling...'', ''OFF - waiting 3s...'', ''ON''],
       stderr = []\<rparr>)
   \<and> main mock \<lparr>pos_command = Some ''cycle'', opt_host = Some ''10.0.0.7''\<rparr>
        (init (bench False)) =
     (Returned,
      \<lparr>world = (bench False)\<lparr>relay := True\<rparr>,
       trace = [Connect ''10.0.0.7'' (Inr 0), Update 0 (Inr ()), TurnOff 0 (Inr ()),
                Sleep 3, TurnOn 0 (Inr ())],
       stdout = [''Power cycling...'', ''OFF - waiting 3s...'', ''ON''],
       stderr = []\<rparr>)"
  using cycle_sequence [of "\<lparr>pos_command = Some ''cycle'', opt_host = None\<rparr>"
      "''192.168.4.96''" mock "bench True" 0 "bench True" "(bench True)\<lparr>cached := True\<rparr>"
      "(bench True)\<lparr>cached := True, relay := False\<rparr>" "(bench True)\<lparr>cached := True\<rparr>"
      "is_on mock"]
    cycle_sequence [of "\<lparr>pos_command = Some ''cycle'', opt_host = Some ''10.0.0.7''\<rparr>"
      "''10.0.0.7''" mock "bench False" 0 "bench False" "bench False"
      "bench False" "(bench False)\<lparr>relay := True\<rparr>"
      "is_on mock"]
  by (simp add: mock_defs)

section \<open>Failures end the run with one line on standard error\<close>






















section \<open>A failed turn-off stops the cycle\<close>

text \<open>
  C3. In the cycle command, when connect and refresh succeed and turn-off raises, the run
  stops there: the trace ends with the failed turn-off, so turn-on is never called and
  the sleep is never entered; only \<^verbatim>\<open>Power cycling...\<close> was printed, the error line goes
  to standard error, and the exit status is 1.
\<close>

theorem cycle_turn_off_failure:
  assumes "parse_args av = Inr \<lparr>command = ''cycle'', host = h\<rparr>"
    and "connect E h w0 = (Inr d, w1)"
    and "update E d w1 = (Inr (), w2)"
    and "turn_off E d w2 = (Inl e, w3)"
  shows "main E av (init w0) =
           (SysExit 1,
            \<lparr>world = w3,
             trace = [Connect h (Inr d), Update d (Inr ()), TurnOff d (Inl e)],
             stdout = [''Power cycling...''],
             stderr = [''Error: '' @ str_exn e]\<rparr>)
         \<and> calls is_turn_on (trace (snd (main E av (init w0)))) = 0
         \<and> calls is_sleep (trace (snd (main E av (init w0)))) = 0
         \<and> exit_code (fst (main E av (init w0))) = 1"
  using assms
  by (simp add: main_def lookup_cycle cmd_cycle_def io_defs init_def calls_def)

theorem cycle_turn_off_failure_witness:
  "main mock \<lparr>pos_command = Some ''cycle'', opt_host = None\<rparr>
      (init ((bench True)\<lparr>refuses := True\<rparr>)) =
           (SysExit 1,
            \<lparr>world = (bench True)\<lparr>cached := True, refuses := True\<rparr>,
             trace = [Connect ''192.168.4.96'' (Inr 0), Update 0 (Inr ()),
                      TurnOff 0 (Inl (Exception ''Command rejected''))],
             stdout = [''Power cycling...''],
             stderr = [''Error: Command rejected'']\<rparr>)"
  using cycle_turn_off_failure [of "\<lparr>pos_command = Some ''cycle'', opt_host = None\<rparr>"
      "''192.168.4.96''" mock "(bench True)\<lparr>refuses := True\<rparr>" 0
      "(bench True)\<lparr>refuses := True\<rparr>" "(bench True)\<lparr>cached := True, refuses := True\<rparr>"
      "Exception ''Command rejected''" "(bench True)\<lparr>cached := True, refuses := True\<rparr>"]
  by (simp add: mock_defs)

section \<open>The on command\<close>

text \<open>
  C4. Whatever the host, when the on command finds \<open>is_on\<close> true after the refresh it
  prints exactly \<^verbatim>\<open>Already ON\<close>, calls turn-on zero times (the trace ends with the read
  of \<open>is_on\<close>), writes nothing to standard error and returns normally: exit status 0.
\<close>

theorem on_already_on:
  assumes "parse_args av = Inr \<lparr>command = ''on'', host = h\<rparr>"
    and "connect E h w0 = (Inr d, w1)"
    and "update E d w1 = (Inr (), w2)"
    and "is_on E d w2"
  shows "main E av (init w0) =
           (Returned,
            \<lparr>world = w2,
             trace = [Connect h (Inr d), Update d (Inr ()), GetIsOn d True],
             stdout = [''Already ON''],
             stderr = []\<rparr>)
         \<and> calls is_turn_on (trace (snd (main E av (init w0)))) = 0
         \<and> exit_code (fst (main E av (init w0))) = 0"
  using assms
  by (simp add: main_def lookup_on cmd_on_def io_defs init_def calls_def)

theorem on_already_on_witness:
  "main mock \<lparr>pos_command = Some ''on'', opt_host = Some ''plug.lan''\<rparr> (init (bench True)) =
           (Returned,
            \<lparr>world = (bench True)\<lparr>cached := True\<rparr>,
             trace = [Connect ''plug.lan'' (Inr 0), Update 0 (Inr ()), GetIsOn 0 True],
             stdout = [''Already ON''],
             stderr = []\<rparr>)"
  using on_already_on [of "\<lparr>pos_command = Some ''on'', opt_host = Some ''plug.lan''\<rparr>"
      "''plug.lan''" mock "bench True" 0 "bench True" "(bench True)\<lparr>cached := True\<rparr>"]
  by (simp add: mock_defs)

text \<open>
  C5, as amended. Whatever the host, when the on command finds \<open>is_on\<close> false after the
  refresh it calls turn-on exactly once, with whatever outcome \<open>r\<close>; when that call
  succeeds it prints exactly \<^verbatim>\<open>Turned ON\<close> and returns normally.
\<close>

theorem on_turns_on:
  assumes "parse_args av = Inr \<lparr>command = ''on'', host = h\<rparr>"
    and "connect E h w0 = (Inr d, w1)"
    and "update E d w1 = (Inr (), w2)"
    and "\<not> is_on E d w2"
    and "turn_on E d w2 = (r, w3)"
  shows "trace (snd (main E av (init w0))) =
           [Connect h (Inr d), Update d (Inr ()), GetIsOn d False, TurnOn d r]
         \<and> calls is_turn_on (trace (snd (main E av (init w0)))) = 1
         \<and> (r = Inr () \<longrightarrow>
              main E av (init w0) =
                (Returned,
                 \<lparr>world = w3,
                  trace = [Connect h (Inr d), Update d (Inr ()), GetIsOn d False,
                           TurnOn d (Inr ())],
                  stdout = [''Turned ON''],
                  stderr = []\<rparr>))"
  using assms
  by (cases r) (simp_all add: main_def lookup_on cmd_on_def io_defs init_def calls_def)

theorem on_turns_on_witness:
  "main mock \<lparr>pos_command = Some ''on'', opt_host = None\<rparr> (init (bench False)) =
                (Returned,
                 \<lparr>world = (bench False)\<lparr>relay := True\<rparr>,
                  trace = [Connect ''192.168.4.96'' (Inr 0), Update 0 (Inr ()), GetIsOn 0 False,
                           TurnOn 0 (Inr ())],
                  stdout = [''Turned ON''],
                  stderr = []\<rparr>)
   \<and> calls is_turn_on (trace (snd (main mock \<lparr>pos_command = Some ''on'', opt_host = None\<rparr>
        (init (bench False))))) = 1"
  using on_turns_on [of "\<lparr>pos_command = Some ''on'', opt_host = None\<rparr>"
      "''192.168.4.96''" mock "bench False" 0 "bench False" "bench False" "Inr ()"
      "(bench False)\<lparr>relay := True\<rparr>"]
  by (simp add: mock_defs calls_def)

text \<open>
  C5 as stated promises \<^verbatim>\<open>Turned ON\<close> whenever \<open>is_on\<close> was found false. A plug that
  is off and refuses the command shows otherwise: turn-on is called once and raises,
  \<^verbatim>\<open>main\<close> catches the exception, and nothing is printed to standard output.
\<close>

theorem on_refused_counterexample:
  "main mock \<lparr>pos_command = Some ''on'', opt_host = None\<rparr>
      (init ((bench False)\<lparr>refuses := True\<rparr>)) =
           (SysExit 1,
            \<lparr>world = (bench False)\<lparr>refuses := True\<rparr>,
             trace = [Connect ''192.168.4.96'' (Inr 0), Update 0 (Inr ()), GetIsOn 0 False,
                      TurnOn 0 (Inl (Exception ''Command rejected''))],
             stdout = [],
             stderr = [''Error: Command rejected'']\<rparr>)
   \<and> stdout (snd (main mock \<lparr>pos_command = Some ''on'', opt_host = None\<rparr>
                      (init ((bench False)\<lparr>refuses := True\<rparr>)))) \<noteq> [''Turned ON'']"
  by (simp add: run_defs mock_defs)

section \<open>The off command\<close>

text \<open>
  C6, as amended. Whatever the host, when the off command finds \<open>is_on\<close> false after the
  refresh it prints exactly \<^verbatim>\<open>Already OFF\<close> and calls turn-off zero times; when it finds
  \<open>is_on\<close> true it calls turn-off exactly once, with whatever outcome \<open>r\<close>, and when
  that call succeeds it prints exactly \<^verbatim>\<open>Turned OFF\<close> and returns normally.
\<close>

theorem off_behaviour:
  assumes "parse_args av = Inr \<lparr>command = ''off'', host = h\<rparr>"
    and "connect E h w0 = (Inr d, w1)"
    and "update E d w1 = (Inr (), w2)"
    and "turn_off E d w2 = (r, w3)"
  shows "(\<not> is_on E d w2 \<longrightarrow>
            main E av (init w0) =
              (Returned,
               \<lparr>world = w2,
                trace = [Connect h (Inr d), Update d (Inr ()), GetIsOn d False],
                stdout = [''Already OFF''],
                stderr = []\<rparr>)
            \<and> calls is_turn_off (trace (snd (main E av (init w0)))) = 0)
       \<and> (is_on E d w2 \<longrightarrow>
            trace (snd (main E av (init w0))) =
              [Connect h (Inr d), Update d (Inr ()), GetIsOn d True, TurnOff d r]
            \<and> calls is_turn_off (trace (snd (main E av (init w0)))) = 1
            \<and> (r = Inr () \<longrightarrow>
                 main E av (init w0) =
                   (Returned,
                    \<lparr>world = w3,
                     trace = [Connect h (Inr d), Update d (Inr ()), GetIsOn d True,
                              TurnOff d (Inr ())],
                     stdout = [''Turned OFF''],
                     stderr = []\<rparr>)))"
  using assms
  by (cases r) (simp_all add: main_def lookup_off cmd_off_def io_defs init_def calls_def)

theorem off_behaviour_witness:
  "main mock \<lparr>pos_command = Some ''off'', opt_host = None\<rparr> (init (bench False)) =
     (Returned,
      \<lparr>world = bench False,
       trace = [Connect ''192.168.4.96'' (Inr 0), Update 0 (Inr ()), GetIsOn 0 False],
       stdout = [''Already OFF''],
       stderr = []\<rparr>)
   \<and> main mock \<lparr>pos_command = Some ''off'', opt_host = None\<rparr> (init (bench True)) =
     (Returned,
      \<lparr>world = (bench True)\<lparr>relay := False, cached := True\<rparr>,
       trace = [Connect ''192.168.4.96'' (Inr 0), Update 0 (Inr ()), GetIsOn 0 True,
                TurnOff 0 (Inr ())],
       stdout = [''Turned OFF''],
       stderr = []\<rparr>)"
  using off_behaviour [of "\<lparr>pos_command = Some ''off'', opt_host = None\<rparr>"
      "''192.168.4.96''" mock "bench False" 0 "bench False" "bench False" "Inr ()"
      "bench False"]
    off_behaviour [of "\<lparr>pos_command = Some ''off'', opt_host = None\<rparr>"
      "''192.168.4.96''" mock "bench True" 0 "bench True" "(bench True)\<lparr>cached := True\<rparr>"
      "Inr ()" "(bench True)\<lparr>relay := False, cached := True\<rparr>"]
  by (simp add: mock_defs)

text \<open>
  C6 as stated promises \<^verbatim>\<open>Turned OFF\<close> whenever \<open>is_on\<close> was found true. A plug that
  is on and refuses the command shows otherwise: turn-off is called once and raises, and
  nothing is printed to standard output.
\<close>

theorem off_refused_counterexample:
  "main mock \<lparr>pos_command = Some ''off'', opt_host = None\<rparr>
      (init ((bench True)\<lparr>refuses := True\<rparr>)) =
           (SysExit 1,
            \<lparr>world = (bench True)\<lparr>cached := True, refuses := True\<rparr>,
             trace = [Connect ''192.168.4.96'' (Inr 0), Update 0 (Inr ()), GetIsOn 0 True,
                      TurnOff 0 (Inl (Exception ''Command rejected''))],
             stdout = [],
             stderr = [''Error: Command rejected'']\<rparr>)
   \<and> stdout (snd (main mock \<lparr>pos_command = Some ''off'', opt_host = None\<rparr>
                      (init ((bench True)\<lparr>refuses := True\<rparr>)))) \<noteq> [''Turned OFF'']"
  by (simp add: run_defs mock_defs)

section \<open>The status command only reads\<close>

lemma status_no_switching:
  "filter is_turn_on (trace (snd (cmd_status E h (init w0)))) = [] \<and>
   filter is_turn_off (trace (snd (cmd_status E h (init w0)))) = []"
  by (simp add: cmd_status_def bind_io_def get_device_run dev_is_on_def dev_alias_def print_def
      init_def Let_def split: prod.split sum.split)

text \<open>
  C7. Whatever the host and whatever the plug, the status command calls neither turn-on
  nor turn-off. When connect and refresh succeed, the world is left as the refresh left
  it, and exactly three lines are printed: \<^verbatim>\<open>Device: \<close> with the alias, \<^verbatim>\<open>Host:   \<close>
  with the host, and \<^verbatim>\<open>State:  ON\<close> when \<open>is_on\<close> is true, \<^verbatim>\<open>State:  OFF\<close> when it is
  false.
\<close>

theorem status_reads_only:
  assumes "parse_args av = Inr \<lparr>command = ''status'', host = h\<rparr>"
  shows "calls is_turn_on (trace (snd (main E av (init w0)))) = 0
       \<and> calls is_turn_off (trace (snd (main E av (init w0)))) = 0
       \<and> (\<forall>d w1 w2. connect E h w0 = (Inr d, w1) \<and> update E d w1 = (Inr (), w2) \<longrightarrow>
            main E av (init w0) =
              (Returned,
               \<lparr>world = w2,
                trace = [Connect h (Inr d), Update d (Inr ()), GetIsOn d (is_on E d w2),
                         GetAlias d (alias E d w2)],
                stdout = [''Device: '' @ alias E d w2,
                          ''Host:   '' @ h,
                          if is_on E d w2 then ''State:  ON'' else ''State:  OFF''],
                stderr = []\<rparr>))"
proof -
  have "trace (snd (main E av (init w0))) = trace (snd (cmd_status E h (init w0)))"
    using trace_main [OF assms, of E "init w0"] by (simp add: lookup_status)
  with status_no_switching [of E h w0]
  have quiet: "calls is_turn_on (trace (snd (main E av (init w0)))) = 0
       \<and> calls is_turn_off (trace (snd (main E av (init w0)))) = 0"
    by (simp add: calls_def)
  have "main E av (init w0) =
              (Returned,
               \<lparr>world = w2,
                trace = [Connect h (Inr d), Update d (Inr ()), GetIsOn d (is_on E d w2),
                         GetAlias d (alias E d w2)],
                stdout = [''Device: '' @ alias E d w2,
                          ''Host:   '' @ h,
                          if is_on E d w2 then ''State:  ON'' else ''State:  OFF''],
                stderr = []\<rparr>)"
    if "connect E h w0 = (Inr d, w1)" and "update E d w1 = (Inr (), w2)" for d w1 w2
    using assms that
    by (simp add: main_def lookup_status cmd_status_def io_defs init_def Let_def)
  with quiet show ?thesis by blast
qed

theorem status_reads_only_witness:
  "main mock \<lparr>pos_command = None, opt_host = Some ''10.0.0.7''\<rparr> (init (bench True)) =
     (Returned,
      \<lparr>world = (bench True)\<lparr>cached := True\<rparr>,
       trace = [Connect ''10.0.0.7'' (Inr 0), Update 0 (Inr ()), GetIsOn 0 True,
                GetAlias 0 ''STM32 bench''],
       stdout = [''Device: STM32 bench'', ''Host:   10.0.0.7'', ''State:  ON''],
       stderr = []\<rparr>)
   \<and> main mock \<lparr>pos_command = None, opt_host = Some ''10.0.0.7''\<rparr> (init (bench False)) =
     (Returned,
      \<lparr>world = bench False,
       trace = [Connect ''10.0.0.7'' (Inr 0), Update 0 (Inr ()), GetIsOn 0 False,
                GetAlias 0 ''STM32 bench''],
       stdout = [''Device: STM32 bench'', ''Host:   10.0.0.7'', ''State:  OFF''],
       stderr = []\<rparr>)"
proof -
  have p: "parse_args \<lparr>pos_command = None, opt_host = Some ''10.0.0.7''\<rparr> =
             Inr \<lparr>command = ''status'', host = ''10.0.0.7''\<rparr>"
    by (simp add: mock_defs)
  from status_reads_only [OF p, of mock "bench True"]
    status_reads_only [OF p, of mock "bench False"]
  show ?thesis by (simp add: mock_defs)
qed

section \<open>One handle, refreshed before use\<close>

lemma follows_bind:
  assumes "follows d m" and "\<And>a. follows d (f a)"
  shows "follows d (bind_io m f)"
  unfolding follows_def
proof
  fix s :: "'a state"
  obtain r s' where ms: "m s = (r, s')" by (cases "m s")
  from assms(1) have "\<exists>ext. trace (snd (m s)) = trace s @ ext \<and> list_all (uses d) ext"
    unfolding follows_def by blast
  with ms obtain ext where e1: "trace s' = trace s @ ext" "list_all (uses d) ext"
    by auto
  show "\<exists>ext. trace (snd (bind_io m f s)) = trace s @ ext \<and> list_all (uses d) ext"
  proof (cases r)
    case (Inl e)
    with ms e1 show ?thesis by (simp add: bind_io_def)
  next
    case (Inr a)
    from assms(2) [of a]
    have "\<exists>ext. trace (snd (f a s')) = trace s' @ ext \<and> list_all (uses d) ext"
      unfolding follows_def by blast
    then obtain ext' where
      e2: "trace (snd (f a s')) = trace s' @ ext'" "list_all (uses d) ext'"
      by auto
    with ms e1 Inr show ?thesis by (simp add: bind_io_def)
  qed
qed

lemma follows_print: "follows d (print t)"
  by (simp add: follows_def print_def)

lemma follows_turn_on: "follows d (dev_turn_on E d)"
  by (simp add: follows_def dev_turn_on_def split: prod.split)

lemma follows_turn_off: "follows d (dev_turn_off E d)"
  by (simp add: follows_def dev_turn_off_def split: prod.split)

lemma follows_is_on: "follows d (dev_is_on E d)"
  by (simp add: follows_def dev_is_on_def Let_def)

lemma follows_alias: "follows d (dev_alias E d)"
  by (simp add: follows_def dev_alias_def Let_def)

lemma follows_sleep: "follows d (asyncio_sleep E n)"
  by (simp add: follows_def asyncio_sleep_def)

lemmas follows_intros = follows_bind follows_print follows_turn_on follows_turn_off
  follows_is_on follows_alias follows_sleep

lemma session_handler:
  assumes "\<And>d. follows d (body d)"
  shows "session E h w0 (trace (snd (bind_io (get_device E h) body (init w0))))"
proof -
  obtain r w1 where c: "connect E h w0 = (r, w1)" by (cases "connect E h w0")
  show ?thesis
  proof (cases r)
    case (Inl e)
    with c show ?thesis
      by (simp add: session_def bind_io_def get_device_run init_def)
  next
    case (Inr d)
    obtain r2 w2 where u: "update E d w1 = (r2, w2)" by (cases "update E d w1")
    show ?thesis
    proof (cases r2)
      case (Inl e)
      with c u Inr show ?thesis
        by (simp add: session_def bind_io_def get_device_run init_def)
    next
      case Inr2: (Inr v)
      define s1 where "s1 = \<lparr>world = w2, trace = [Connect h (Inr d), Update d (Inr ())],
         stdout = [], stderr = ([] :: string list)\<rparr>"
      from assms [of d]
      have "\<exists>ext. trace (snd (body d s1)) = trace s1 @ ext \<and> list_all (uses d) ext"
        unfolding follows_def by blast
      then obtain ext where
        "trace (snd (body d s1)) = trace s1 @ ext" "list_all (uses d) ext"
        by auto
      with c u Inr Inr2 show ?thesis
        by (simp add: session_def bind_io_def get_device_run init_def s1_def)
    qed
  qed
qed

lemma session_cmd_status: "session E h w0 (trace (snd (cmd_status E h (init w0))))"
  unfolding cmd_status_def Let_def by (rule session_handler) (intro follows_intros)

lemma session_cmd_on: "session E h w0 (trace (snd (cmd_on E h (init w0))))"
  unfolding cmd_on_def
  by (rule session_handler) (intro follows_bind follows_is_on, simp add: follows_intros)

lemma session_cmd_off: "session E h w0 (trace (snd (cmd_off E h (init w0))))"
  unfolding cmd_off_def
  by (rule session_handler) (intro follows_bind follows_is_on, simp add: follows_intros)

lemma session_cmd_cycle: "session E h w0 (trace (snd (cmd_cycle E h (init w0))))"
  unfolding cmd_cycle_def by (rule session_handler) (intro follows_intros)

lemma session_main:
  assumes "parse_args av = Inr a"
  shows "session E (host a) w0 (trace (snd (main E av (init w0))))"
  using parse_args_cases [OF assms]
  by (auto simp: trace_main [OF assms] lookup_on lookup_off lookup_cycle lookup_status
      session_cmd_on session_cmd_off session_cmd_cycle session_cmd_status)

lemma uses_not_connect: "list_all (uses d) rest \<Longrightarrow> filter is_connect rest = []"
proof (induction rest)
  case Nil
  then show ?case by simp
next
  case (Cons ev rest)
  then show ?case by (cases ev) simp_all
qed

text \<open>
  C8. For every command the parser accepts, the trace of a run holds exactly one connect,
  and it comes first. If it raised, nothing else happened. Otherwise the next event is
  the refresh of the handle connect returned; if the refresh raised, nothing else
  happened; otherwise every later event is a read of \<open>is_on\<close> or \<open>alias\<close>, a turn-on or a
  turn-off on that same handle, or a sleep: no second handle is created and nothing is
  read from or done to a handle that was not refreshed.
\<close>

theorem one_refreshed_handle:
  assumes "parse_args av = Inr a"
    and "connect E (host a) w0 = (r, w1)"
  shows "calls is_connect (trace (snd (main E av (init w0)))) = 1
       \<and> (\<forall>e. r = Inl e \<longrightarrow>
             trace (snd (main E av (init w0))) = [Connect (host a) (Inl e)])
       \<and> (\<forall>d e. r = Inr d \<and> fst (update E d w1) = Inl e \<longrightarrow>
             trace (snd (main E av (init w0))) =
               [Connect (host a) (Inr d), Update d (Inl e)])
       \<and> (\<forall>d. r = Inr d \<and> fst (update E d w1) = Inr () \<longrightarrow>
             (\<exists>rest. trace (snd (main E av (init w0))) =
                       Connect (host a) (Inr d) # Update d (Inr ()) # rest
                     \<and> list_all (uses d) rest))"
proof -
  let ?tr = "trace (snd (main E av (init w0)))"
  from session_main [OF assms(1), of E w0] assms(2)
  have shape: "case r of
        Inl e \<Rightarrow> ?tr = [Connect (host a) (Inl e)]
      | Inr d \<Rightarrow>
          (case fst (update E d w1) of
             Inl e \<Rightarrow> ?tr = [Connect (host a) (Inr d), Update d (Inl e)]
           | Inr u \<Rightarrow> (\<exists>rest. ?tr = Connect (host a) (Inr d) # Update d (Inr ()) # rest \<and>
                          list_all (uses d) rest))"
    by (simp add: session_def)
  have one: "calls is_connect ?tr = 1"
  proof (cases r)
    case (Inl e)
    with shape show ?thesis by (simp add: calls_def)
  next
    case (Inr d)
    show ?thesis
    proof (cases "fst (update E d w1)")
      case (Inl e)
      with shape Inr show ?thesis by (simp add: calls_def)
    next
      case Inr2: (Inr u)
      with shape Inr obtain rest where
        "?tr = Connect (host a) (Inr d) # Update d (Inr ()) # rest" "list_all (uses d) rest"
        by auto
      then show ?thesis by (simp add: calls_def uses_not_connect)
    qed
  qed
  from shape have "\<forall>e. r = Inl e \<longrightarrow> ?tr = [Connect (host a) (Inl e)]"
    by (auto split: sum.splits)
  moreover from shape have "\<forall>d e. r = Inr d \<and> fst (update E d w1) = Inl e \<longrightarrow>
             ?tr = [Connect (host a) (Inr d), Update d (Inl e)]"
    by (auto split: sum.splits)
  moreover from shape have "\<forall>d. r = Inr d \<and> fst (update E d w1) = Inr () \<longrightarrow>
             (\<exists>rest. ?tr = Connect (host a) (Inr d) # Update d (Inr ()) # rest
                     \<and> list_all (uses d) rest)"
    by (auto split: sum.splits)
  ultimately show ?thesis using one by blast
qed

theorem one_refreshed_handle_witness:
  "calls is_connect (trace (snd (main mock \<lparr>pos_command = Some ''cycle'', opt_host = None\<rparr>
       (init (bench True))))) = 1
   \<and> (\<exists>rest. trace (snd (main mock \<lparr>pos_command = Some ''cycle'', opt_host = None\<rparr>
                 (init (bench True)))) =
               Connect ''192.168.4.96'' (Inr 0) # Update 0 (Inr ()) # rest
             \<and> list_all (uses 0) rest)"
proof -
  have p: "parse_args \<lparr>pos_command = Some ''cycle'', opt_host = None\<rparr> =
             Inr \<lparr>command = ''cycle'', host = ''192.168.4.96''\<rparr>"
    by (simp add: mock_defs)
  have c: "connect mock (host \<lparr>command = ''cycle'', host = ''192.168.4.96''\<rparr>) (bench True) =
             (Inr 0, bench True)"
    by (simp add: mock_defs)
  have u: "fst (update mock 0 (bench True)) = Inr ()"
    by (simp add: mock_defs)
  from one_refreshed_handle [OF p c] u show ?thesis by simp
qed

section \<open>Defaults of the command line\<close>

text \<open>
  C9. For every command line the parser accepts: without \<^verbatim>\<open>--host\<close> the host is
  \<open>DEFAULT_HOST\<close>, which is \<^verbatim>\<open>192.168.4.96\<close>, and with \<^verbatim>\<open>--host g\<close> it is \<open>g\<close>
  unchanged; the first thing the run does is connect to that host; and without a
  command the run is that of \<^verbatim>\<open>cmd_status\<close>.
\<close>

theorem default_host_and_command:
  assumes "parse_args \<lparr>pos_command = co, opt_host = ho\<rparr> = Inr a"
  shows "DEFAULT_HOST = ''192.168.4.96''
       \<and> host a = (case ho of None \<Rightarrow> DEFAULT_HOST | Some g \<Rightarrow> g)
       \<and> (\<exists>rest. trace (snd (main E \<lparr>pos_command = co, opt_host = ho\<rparr> (init w0))) =
                   Connect (host a) (fst (connect E (host a) w0)) # rest)
       \<and> (co = None \<longrightarrow>
            command a = ''status'' \<and>
            main E \<lparr>pos_command = co, opt_host = ho\<rparr> (init w0) =
              (case cmd_status E (host a) (init w0) of
                 (Inl e, s') \<Rightarrow> (SysExit 1, print_stderr (''Error: '' @ str_exn e) s')
               | (Inr u, s') \<Rightarrow> (Returned, s')))"
proof -
  let ?av = "\<lparr>pos_command = co, opt_host = ho\<rparr>"
  from assms have h: "host a = (case ho of None \<Rightarrow> DEFAULT_HOST | Some g \<Rightarrow> g)"
    by (auto simp: parse_args_def Let_def split: if_splits)
  have first: "\<exists>rest. trace (snd (main E ?av (init w0))) =
                   Connect (host a) (fst (connect E (host a) w0)) # rest"
    using session_main [OF assms, of E w0]
    by (auto simp: session_def split: prod.splits sum.splits)
  have dflt: "command a = ''status'' \<and>
            main E ?av (init w0) =
              (case cmd_status E (host a) (init w0) of
                 (Inl e, s') \<Rightarrow> (SysExit 1, print_stderr (''Error: '' @ str_exn e) s')
               | (Inr u, s') \<Rightarrow> (Returned, s'))" if "co = None"
  proof -
    from assms that have c: "command a = ''status''"
      by (auto simp: parse_args_def Let_def split: if_splits)
    with assms show ?thesis by (simp add: main_def lookup_status)
  qed
  from h first dflt show ?thesis by (simp add: DEFAULT_HOST_def)
qed

theorem default_host_and_command_witness:
  "main mock \<lparr>pos_command = None, opt_host = None\<rparr> (init (bench True)) =
     (Returned,
      \<lparr>world = (bench True)\<lparr>cached := True\<rparr>,
       trace = [Connect ''192.168.4.96'' (Inr 0), Update 0 (Inr ()), GetIsOn 0 True,
                GetAlias 0 ''STM32 bench''],
       stdout = [''Device: STM32 bench'', ''Host:   192.168.4.96'', ''State:  ON''],
       stderr = []\<rparr>)
   \<and> (\<exists>rest. trace (snd (main mock \<lparr>pos_command = Some ''on'', opt_host = Some ''plug.lan''\<rparr>
                  (init (bench True)))) = Connect ''plug.lan'' (Inr 0) # rest)"
proof -
  have p: "parse_args \<lparr>pos_command = None, opt_host = None\<rparr> =
             Inr \<lparr>command = ''status'', host = ''192.168.4.96''\<rparr>"
    by (simp add: mock_defs)
  have q: "parse_args \<lparr>pos_command = Some ''on'', opt_host = Some ''plug.lan''\<rparr> =
             Inr \<lparr>command = ''on'', host = ''plug.lan''\<rparr>"
    by (simp add: mock_defs)
  have run: "cmd_status mock ''192.168.4.96'' (init (bench True)) =
     (Inr (),
      \<lparr>world = (bench True)\<lparr>cached := True\<rparr>,
       trace = [Connect ''192.168.4.96'' (Inr 0), Update 0 (Inr ()), GetIsOn 0 True,
                GetAlias 0 ''STM32 bench''],
       stdout = [''Device: STM32 bench'', ''Host:   192.168.4.96'', ''State:  ON''],
       stderr = []\<rparr>)"
    by (simp add: run_defs mock_defs)
  have c: "fst (connect mock ''plug.lan'' (bench True)) = Inr 0"
    by (simp add: mock_defs)
  from default_host_and_command [OF p, of mock "bench True"]
    default_host_and_command [OF q, of mock "bench True"] run c
  show ?thesis by simp
qed

section \<open>The host line echoes the argument\<close>

lemma status_stdout:
  "stdout (snd (cmd_status E h (init w))) =
     (case connect E h w of
        (Inl e, w1) \<Rightarrow> []
      | (Inr d, w1) \<Rightarrow>
          (case update E d w1 of
             (Inl e, w2) \<Rightarrow> []
           | (Inr u, w2) \<Rightarrow>
               [''Device: '' @ alias E d w2, ''Host:   '' @ h,
                ''State:  '' @ (if is_on E d w2 then ''ON'' else ''OFF'')]))"
  by (simp add: cmd_status_def bind_io_def get_device_run dev_is_on_def dev_alias_def print_def
      init_def Let_def split: prod.split sum.split)

lemma status_stdout_shape:
  "stdout (snd (cmd_status E h (init w))) = [] \<or>
   (\<exists>dl sl. stdout (snd (cmd_status E h (init w))) = [dl, ''Host:   '' @ h, sl])"
  by (simp add: status_stdout split: prod.split sum.split)

lemma cmd_status_reported_host:
  "cmd_status (E\<lparr>reported_host := f\<rparr>) h = cmd_status E h"
proof -
  have "Device_connect (E\<lparr>reported_host := f\<rparr>) h = Device_connect E h"
    by (simp add: fun_eq_iff Device_connect_def)
  moreover have "dev_update (E\<lparr>reported_host := f\<rparr>) d = dev_update E d" for d
    by (simp add: fun_eq_iff dev_update_def)
  moreover have "dev_is_on (E\<lparr>reported_host := f\<rparr>) d = dev_is_on E d" for d
    by (simp add: fun_eq_iff dev_is_on_def)
  moreover have "dev_alias (E\<lparr>reported_host := f\<rparr>) d = dev_alias E d" for d
    by (simp add: fun_eq_iff dev_alias_def)
  ultimately show ?thesis
    by (simp add: cmd_status_def get_device_def)
qed

text \<open>
  C10. The status command prints either nothing or three lines of which the second is
  \<^verbatim>\<open>Host:   \<close> followed by the host it was given. Two runs with the same command line
  against any two libraries and worlds therefore print the same host line, and
  replacing the address the device object reports (\<open>reported_host\<close>) changes nothing
  in the run.
\<close>

theorem status_host_line:
  assumes "parse_args av = Inr \<lparr>command = ''status'', host = h\<rparr>"
  shows "(stdout (snd (main E1 av (init w1))) = [] \<or>
          (\<exists>dl sl. stdout (snd (main E1 av (init w1))) = [dl, ''Host:   '' @ h, sl]))
       \<and> (stdout (snd (main E1 av (init w1))) \<noteq> [] \<and>
          stdout (snd (main E2 av (init w2))) \<noteq> [] \<longrightarrow>
            stdout (snd (main E1 av (init w1))) ! 1 = stdout (snd (main E2 av (init w2))) ! 1)
       \<and> main (E1\<lparr>reported_host := f\<rparr>) av (init w1) = main E1 av (init w1)"
proof -
  have o1: "stdout (snd (main E1 av (init w1))) = stdout (snd (cmd_status E1 h (init w1)))"
    using stdout_main [OF assms, of E1 "init w1"] by (simp add: lookup_status)
  have o2: "stdout (snd (main E2 av (init w2))) = stdout (snd (cmd_status E2 h (init w2)))"
    using stdout_main [OF assms, of E2 "init w2"] by (simp add: lookup_status)
  have indep: "main (E1\<lparr>reported_host := f\<rparr>) av (init w1) = main E1 av (init w1)"
    using assms by (simp add: main_def lookup_status cmd_status_reported_host)
  from status_stdout_shape [of E1 h w1] status_stdout_shape [of E2 h w2] o1 o2 indep
  show ?thesis by auto
qed

theorem status_host_line_witness:
  "stdout (snd (main mock \<lparr>pos_command = Some ''status'', opt_host = Some ''10.0.0.7''\<rparr>
      (init (bench True)))) =
     [''Device: STM32 bench'', ''Host:   10.0.0.7'', ''State:  ON'']
   \<and> stdout (snd (main mock \<lparr>pos_command = Some ''status'', opt_host = Some ''10.0.0.7''\<rparr>
      (init ((bench False)\<lparr>plug_address := ''172.16.0.9''\<rparr>)))) =
     [''Device: STM32 bench'', ''Host:   10.0.0.7'', ''State:  OFF'']
   \<and> stdout (snd (main mock \<lparr>pos_command = Some ''status'', opt_host = Some ''10.0.0.7''\<rparr>
      (init (bench True)))) ! 1 =
     stdout (snd (main mock \<lparr>pos_command = Some ''status'', opt_host = Some ''10.0.0.7''\<rparr>
      (init ((bench False)\<lparr>plug_address := ''172.16.0.9''\<rparr>)))) ! 1"
proof -
  let ?av = "\<lparr>pos_command = Some ''status'', opt_host = Some ''10.0.0.7''\<rparr>"
  have p: "parse_args ?av = Inr \<lparr>command = ''status'', host = ''10.0.0.7''\<rparr>"
    by (simp add: mock_defs)
  have r1: "stdout (snd (main mock ?av (init (bench True)))) =
     [''Device: STM32 bench'', ''Host:   10.0.0.7'', ''State:  ON'']"
    by (simp add: run_defs mock_defs)
  have r2: "stdout (snd (main mock ?av (init ((bench False)\<lparr>plug_address := ''172.16.0.9''\<rparr>)))) =
     [''Device: STM32 bench'', ''Host:   10.0.0.7'', ''State:  OFF'']"
    by (simp add: run_defs mock_defs)
  from status_host_line [OF p, of mock "bench True" mock
      "(bench False)\<lparr>plug_address := ''172.16.0.9''\<rparr>"] r1 r2
  show ?thesis by simp
qed

end
